theory Spec2Isabelle
  imports Main "HOL-Library.Sublist"
begin

section \<open>Python values and exceptions\<close>

text \<open>
  The bot keeps its sessions in nested dictionaries whose values are strings and booleans.
  The exceptions that can leave a handler are values of the type \<open>error\<close>: every
  handler returns how it ended. An exception raised inside the \<open>try\<close> block of
  \<open>handle_url\<close> is caught there, and only its text \<open>str(e)\<close> is used.
\<close>

datatype pyval = PStr string | PBool bool

datatype error =
    KeyError
  | IndexError
  | UnboundLocalError

text \<open>Truth value of the result of \<open>dict.get(key)\<close>: a missing key gives \<open>None\<close>.\<close>

fun truthy :: "pyval option \<Rightarrow> bool" where
  "truthy None = False"
| "truthy (Some (PBool b)) = b"
| "truthy (Some (PStr s)) = (s \<noteq> [])"

section \<open>Regular expressions as the validator uses them\<close>

text \<open>
  The three patterns of \<open>is_valid_url\<close> are built from literal text, concatenation,
  alternation \<open>a|b\<close>, optional groups \<open>(a)?\<close> and a final \<open>.+\<close>.
  \<open>consume r s\<close> lists, in the order a backtracking matcher tries them, the rests of
  \<open>s\<close> that remain after \<open>r\<close> has matched a prefix of \<open>s\<close>.
  \<open>re.match\<close> anchors at the start of the string only: it succeeds when some prefix
  matches.
\<close>

datatype regex =
    Lit string
  | Seq regex regex
  | Alt regex regex
  | Opt regex
  | DotPlus

definition newline :: char where
  "newline = CHR 0x0A"

text \<open>\<open>.+\<close>: one or more characters other than a line feed, longest match first.\<close>

fun dot_plus_rests :: "string \<Rightarrow> string list" where
  "dot_plus_rests [] = []"
| "dot_plus_rests (c # cs) = (if c = newline then [] else dot_plus_rests cs @ [cs])"

fun consume :: "regex \<Rightarrow> string \<Rightarrow> string list" where
  "consume (Lit w) s = (if prefix w s then [drop (length w) s] else [])"
| "consume (Seq a b) s = concat (map (consume b) (consume a s))"
| "consume (Alt a b) s = consume a s @ consume b s"
| "consume (Opt a) s = consume a s @ [s]"
| "consume DotPlus s = dot_plus_rests s"

definition re_match :: "regex \<Rightarrow> string \<Rightarrow> bool" where
  "re_match r s = (consume r s \<noteq> [])"

text \<open>The language of a pattern, used to state what \<open>consume\<close> computes.\<close>

fun lang :: "regex \<Rightarrow> string set" where
  "lang (Lit w) = {w}"
| "lang (Seq a b) = {u @ v | u v. u \<in> lang a \<and> v \<in> lang b}"
| "lang (Alt a b) = lang a \<union> lang b"
| "lang (Opt a) = insert [] (lang a)"
| "lang DotPlus = {w. w \<noteq> [] \<and> newline \<notin> set w}"

section \<open>The URL validator\<close>

text \<open>\<open>(https?://)?\<close>\<close>

definition scheme_re :: regex where
  "scheme_re = Opt (Seq (Lit ''http'') (Seq (Opt (Lit ''s'')) (Lit ''://'')))"

text \<open>\<open>(https?://)?(www\.)?(youtube\.com|youtu\.be)/.+\<close>\<close>

definition youtube_re :: regex where
  "youtube_re =
     Seq scheme_re
      (Seq (Opt (Lit ''www.''))
        (Seq (Alt (Lit ''youtube.com'') (Lit ''youtu.be''))
          (Seq (Lit ''/'') DotPlus)))"

text \<open>\<open>(https?://)?(www\.|vm\.|vt\.)?tiktok\.com/.+\<close>\<close>

definition tiktok_re :: regex where
  "tiktok_re =
     Seq scheme_re
      (Seq (Opt (Alt (Lit ''www.'') (Alt (Lit ''vm.'') (Lit ''vt.''))))
        (Seq (Lit ''tiktok.com'')
          (Seq (Lit ''/'') DotPlus)))"

text \<open>\<open>(https?://)?(www\.|m\.)?facebook\.com/.+\<close>\<close>

definition facebook_re :: regex where
  "facebook_re =
     Seq scheme_re
      (Seq (Opt (Alt (Lit ''www.'') (Lit ''m.'')))
        (Seq (Lit ''facebook.com'')
          (Seq (Lit ''/'') DotPlus)))"

definition PLATFORMS :: "string list" where
  "PLATFORMS = [''YouTube'', ''TikTok'', ''Facebook'']"

definition QUALITIES :: "string list" where
  "QUALITIES = [''360p'', ''720p'', ''1080p'', ''2k'']"

text \<open>The dictionary \<open>patterns\<close>; \<open>patterns[platform]\<close> raises KeyError on any other key.\<close>

definition patterns :: "string \<Rightarrow> regex option" where
  "patterns platform =
     (if platform = ''YouTube'' then Some youtube_re
      else if platform = ''TikTok'' then Some tiktok_re
      else if platform = ''Facebook'' then Some facebook_re
      else None)"

definition is_valid_url :: "string \<Rightarrow> string \<Rightarrow> error + bool" where
  "is_valid_url platform url =
     (case patterns platform of
        None \<Rightarrow> Inl KeyError
      | Some r \<Rightarrow> Inr (re_match r url))"

section \<open>What the specification says about accepted URLs\<close>

text \<open>
  The specification's words, for comparison with the code: a URL of a platform is an optional
  scheme, one of the platform's hosts (the canonical domain, with its optional subdomain
  variants, or a short-link domain) and a path, which starts with a slash.
\<close>

definition spec_schemes :: "string list" where
  "spec_schemes = ['''', ''http://'', ''https://'']"

definition spec_hosts :: "string \<Rightarrow> string list" where
  "spec_hosts platform =
     (if platform = ''YouTube'' then
        [''youtube.com'', ''youtu.be'', ''www.youtube.com'', ''www.youtu.be'']
      else if platform = ''TikTok'' then
        [''tiktok.com'', ''www.tiktok.com'', ''vm.tiktok.com'', ''vt.tiktok.com'']
      else if platform = ''Facebook'' then
        [''facebook.com'', ''www.facebook.com'', ''m.facebook.com'']
      else [])"

definition spec_url_heads :: "string \<Rightarrow> string list" where
  "spec_url_heads platform =
     concat (map (\<lambda>s. map (\<lambda>h. s @ h @ ''/'') (spec_hosts platform)) spec_schemes)"

text \<open>The URL is of one of the platform's domains and has a path.\<close>

definition spec_domain_url :: "string \<Rightarrow> string \<Rightarrow> bool" where
  "spec_domain_url platform url = list_ex (\<lambda>pre. prefix pre url) (spec_url_heads platform)"

text \<open>After \<open>pre\<close> the URL goes on with a character that is not a line feed.\<close>

definition path_starts :: "string \<Rightarrow> string \<Rightarrow> bool" where
  "path_starts pre url =
     (prefix pre url \<and> (case drop (length pre) url of [] \<Rightarrow> False | c # _ \<Rightarrow> c \<noteq> newline))"

definition accepted_url :: "string \<Rightarrow> string \<Rightarrow> bool" where
  "accepted_url platform url = list_ex (\<lambda>pre. path_starts pre url) (spec_url_heads platform)"

section \<open>Strings\<close>

text \<open>\<open>str.startswith\<close>.\<close>

definition startswith :: "string \<Rightarrow> string \<Rightarrow> bool" where
  "startswith s p = prefix p s"

text \<open>\<open>s.split(":")\<close>: the fields between the colons; never an empty list.\<close>

fun split_colon :: "string \<Rightarrow> string list" where
  "split_colon [] = [[]]"
| "split_colon (c # cs) =
     (if c = CHR '':'' then [] # split_colon cs
      else (case split_colon cs of
              [] \<Rightarrow> [[c]]
            | f # fs \<Rightarrow> (c # f) # fs))"

text \<open>\<open>xs[1]\<close> on the result of a split.\<close>

fun second :: "string list \<Rightarrow> error + string" where
  "second (_ # x # _) = Inr x"
| "second _ = Inl IndexError"

text \<open>
  \<open>str.strip()\<close> removes white space at both ends. A character stands for a code point
  below 256; Python's white space there is 9 to 13, 28 to 32, 133 and 160.
\<close>

definition is_space :: "char \<Rightarrow> bool" where
  "is_space c = ((of_char c :: nat) \<in> set [9, 10, 11, 12, 13, 28, 29, 30, 31, 32, 133, 160])"

definition strip :: "string \<Rightarrow> string" where
  "strip s = rev (dropWhile is_space (rev (dropWhile is_space s)))"

text \<open>\<open>quality.replace("p", "")\<close>: every \<open>p\<close> is removed.\<close>

definition replace_p :: "string \<Rightarrow> string" where
  "replace_p s = filter (\<lambda>c. c \<noteq> CHR ''p'') s"

text \<open>A string of decimal digits, as a height in pixels is written.\<close>

definition is_digit :: "char \<Rightarrow> bool" where
  "is_digit c = (c \<in> set ''0123456789'')"

definition numeric :: "string \<Rightarrow> bool" where
  "numeric s = (s \<noteq> [] \<and> list_all is_digit s)"

text \<open>
  The specification's words for the height ceiling, for comparison with the code: the
  quality label with its trailing unit stripped, the unit being the last character.
\<close>

definition spec_strip_unit :: "string \<Rightarrow> string" where
  "spec_strip_unit label = butlast label"

section \<open>Sessions, replies and the world outside\<close>

text \<open>
  \<open>user_state: Dict[int, Dict]\<close>: a session is a dictionary with the keys
  \<open>platform\<close>, \<open>video_sent\<close> and \<open>quality\<close>.
\<close>

type_synonym session = "string \<rightharpoonup> pyval"

type_synonym user_state = "int \<rightharpoonup> session"

text \<open>
  What the bot sends. Each text reply of the source is one constructor; a reply that
  interpolates a value carries it.
\<close>

datatype reply =
    Welcome
  | SelectPlatform "string list"
  | PlatformSelected string "string list"
  | QualitySelected string
  | SessionExpired
  | StartFirst
  | AlreadyDownloaded
  | InvalidUrl string
  | Downloading
  | FileNotFound
  | FileTooLarge
  | Video string string
  | SentOk
  | DownloadError string

text \<open>The files on storage: a path has a size in bytes, or does not exist.\<close>

type_synonym fs = "string \<rightharpoonup> nat"

record info =
  title :: "string option"

record ydl_opts =
  format :: string
  outtmpl :: string
  noplaylist :: bool
  quiet :: bool
  socket_timeout :: nat
  retries :: nat
  fragment_retries :: nat
  continuedl :: bool
  noprogress :: bool

text \<open>
  The collaborators of one request: the random token \<open>uuid4().hex[:10]\<close>; the extraction
  engine, which writes files and returns the metadata (\<open>Inr\<close>) or raises an exception
  with a text (\<open>Inl\<close>); the file name the engine computes from the metadata; and the
  chat gateway's video upload, which returns (\<open>None\<close>) or raises an exception with a
  text.
  The creation of the directory, the computation of the file name, the operations on an
  existing file and the text replies are taken to succeed.
\<close>

record env =
  file_token :: string
  extract_info :: "ydl_opts \<Rightarrow> string \<Rightarrow> fs \<Rightarrow> fs \<times> (string + info)"
  prepare_filename :: "ydl_opts \<Rightarrow> info \<Rightarrow> string"
  reply_video :: "string \<Rightarrow> string \<Rightarrow> string option"

datatype outcome = Returned | Raised error

text \<open>
  What a handler leaves behind: the session store, the files, the replies it sent, the
  calls of the extraction engine it made, and whether it returned or raised.
\<close>

record result =
  state :: user_state
  files :: fs
  replies :: "reply list"
  engine_calls :: "(ydl_opts \<times> string) list"
  outcome :: outcome

text \<open>A handler that only answers: no change of state, no file touched, no engine call.\<close>

definition answer :: "user_state \<Rightarrow> fs \<Rightarrow> reply list \<Rightarrow> result" where
  "answer st fs rs =
     \<lparr>state = st, files = fs, replies = rs, engine_calls = [], outcome = Returned\<rparr>"

text \<open>A handler left by an exception before it did anything.\<close>

definition raise :: "user_state \<Rightarrow> fs \<Rightarrow> error \<Rightarrow> result" where
  "raise st fs e =
     \<lparr>state = st, files = fs, replies = [], engine_calls = [], outcome = Raised e\<rparr>"

section \<open>The command and the buttons\<close>

definition start :: "user_state \<Rightarrow> fs \<Rightarrow> result" where
  "start st fs = answer st fs [Welcome]"

definition menu_handler :: "user_state \<Rightarrow> fs \<Rightarrow> string \<Rightarrow> result" where
  "menu_handler st fs data =
     (if data = ''menu:download'' then answer st fs [SelectPlatform PLATFORMS]
      else answer st fs [])"

text \<open>
  \<open>button_handler\<close>: a payload \<open>platform:P\<close> creates or overwrites the sender's session;
  a payload \<open>quality:Q\<close> stores the quality in an existing session.
\<close>

definition button_handler :: "user_state \<Rightarrow> fs \<Rightarrow> int \<Rightarrow> string \<Rightarrow> result" where
  "button_handler st fs user_id data =
     (if startswith data ''platform:'' then
        (case second (split_colon data) of
           Inl e \<Rightarrow> raise st fs e
         | Inr platform \<Rightarrow>
             answer
               (st(user_id \<mapsto> [''platform'' \<mapsto> PStr platform, ''video_sent'' \<mapsto> PBool False]))
               fs [PlatformSelected platform QUALITIES])
      else if startswith data ''quality:'' then
        (case second (split_colon data) of
           Inl e \<Rightarrow> raise st fs e
         | Inr quality \<Rightarrow>
             (case st user_id of
                Some sess \<Rightarrow>
                  answer (st(user_id \<mapsto> sess(''quality'' \<mapsto> PStr quality))) fs
                    [QualitySelected quality]
              | None \<Rightarrow> answer st fs [SessionExpired]))
      else answer st fs [])"

section \<open>The download\<close>

definition size_limit :: nat where
  "size_limit = 2 * 1024 * 1024 * 1024"

definition ydl_options :: "string \<Rightarrow> string \<Rightarrow> ydl_opts" where
  "ydl_options format_height token =
     \<lparr>format = ''best[height<='' @ format_height @ '']/best'',
      outtmpl = ''downloads/'' @ token @ ''.%(ext)s'',
      noplaylist = True,
      quiet = True,
      socket_timeout = 120,
      retries = 10,
      fragment_retries = 10,
      continuedl = True,
      noprogress = True\<rparr>"

text \<open>\<open>info.get("title", "Downloaded video")\<close>\<close>

definition caption :: "info \<Rightarrow> string" where
  "caption i = (case title i of None \<Rightarrow> ''Downloaded video'' | Some t \<Rightarrow> t)"

text \<open>
  The \<open>except\<close> block, entered with the text of the exception it caught. It replies
  with that text, then reads the local variable
  \<open>file_path\<close>. The variable is bound only once \<open>prepare_filename\<close> has returned
  (\<open>Some p\<close>); read before that (\<open>None\<close>), it raises UnboundLocalError, and neither
  the removal of the file nor the reset of \<open>video_sent\<close> is reached.
\<close>

definition except_block ::
  "user_state \<Rightarrow> int \<Rightarrow> session \<Rightarrow> fs \<Rightarrow> (ydl_opts \<times> string) list \<Rightarrow> string \<Rightarrow> string option \<Rightarrow> result"
where
  "except_block st user_id sess fs calls e file_path =
     (case file_path of
        None \<Rightarrow>
          \<lparr>state = st, files = fs,
           replies = [Downloading, DownloadError e],
           engine_calls = calls, outcome = Raised UnboundLocalError\<rparr>
      | Some p \<Rightarrow>
          \<lparr>state = st(user_id \<mapsto> sess(''video_sent'' \<mapsto> PBool False)),
           files = fs(p := None),
           replies = [Downloading, DownloadError e],
           engine_calls = calls, outcome = Returned\<rparr>)"

text \<open>
  The text of the AttributeError that \<open>quality.replace\<close> raises when the quality is
  a boolean: \<open>'bool' object has no attribute 'replace'\<close>.
\<close>

definition bool_has_no_replace :: string where
  "bool_has_no_replace = CHR 0x27 # ''bool' object has no attribute 'replace'' @ [CHR 0x27]"

text \<open>
  The \<open>try\<close> block of \<open>handle_url\<close>, entered after the reply that the download has
  begun: the options, the engine, the check that the file exists, the size ceiling, the
  upload, the removal of the file and the flag.
\<close>

definition download ::
  "env \<Rightarrow> user_state \<Rightarrow> fs \<Rightarrow> int \<Rightarrow> session \<Rightarrow> pyval \<Rightarrow> string \<Rightarrow> result"
where
  "download env st fs user_id sess quality message =
     (case quality of
        PBool _ \<Rightarrow> except_block st user_id sess fs [] bool_has_no_replace None
      | PStr q \<Rightarrow>
          (let format_height = replace_p q;
               ydl_opts = ydl_options format_height (file_token env);
               calls = [(ydl_opts, message)]
           in case extract_info env ydl_opts message fs of
                (fs1, Inl e) \<Rightarrow> except_block st user_id sess fs1 calls e None
              | (fs1, Inr i) \<Rightarrow>
                  (let file_path = prepare_filename env ydl_opts i
                   in case fs1 file_path of
                        None \<Rightarrow>
                          \<lparr>state = st, files = fs1,
                           replies = [Downloading, FileNotFound],
                           engine_calls = calls, outcome = Returned\<rparr>
                      | Some sz \<Rightarrow>
                          if sz > size_limit then
                            \<lparr>state = st, files = fs1(file_path := None),
                             replies = [Downloading, FileTooLarge],
                             engine_calls = calls, outcome = Returned\<rparr>
                          else
                            (case reply_video env file_path (caption i) of
                               Some e \<Rightarrow>
                                 except_block st user_id sess fs1 calls e (Some file_path)
                             | None \<Rightarrow>
                                 \<lparr>state = st(user_id \<mapsto> sess(''video_sent'' \<mapsto> PBool True)),
                                  files = fs1(file_path := None),
                                  replies = [Downloading, Video file_path (caption i), SentOk],
                                  engine_calls = calls, outcome = Returned\<rparr>))))"

section \<open>The URL message\<close>

text \<open>\<open>is_valid_url\<close> on the result of \<open>.get("platform")\<close>: only a string can be a key of \<open>patterns\<close>.\<close>

definition validate :: "pyval option \<Rightarrow> string \<Rightarrow> error + (string \<times> bool)" where
  "validate platform message =
     (case platform of
        Some (PStr p) \<Rightarrow>
          (case is_valid_url p message of Inl e \<Rightarrow> Inl e | Inr b \<Rightarrow> Inr (p, b))
      | _ \<Rightarrow> Inl KeyError)"

text \<open>\<open>user_state[user_id].get("quality", "720p")\<close>\<close>

definition quality_of :: "session \<Rightarrow> pyval" where
  "quality_of sess = (case sess ''quality'' of None \<Rightarrow> PStr ''720p'' | Some q \<Rightarrow> q)"

definition handle_url :: "env \<Rightarrow> user_state \<Rightarrow> fs \<Rightarrow> int \<Rightarrow> string \<Rightarrow> result" where
  "handle_url env st fs user_id text =
     (let message = strip text
      in case st user_id of
           None \<Rightarrow> answer st fs [StartFirst]
         | Some sess \<Rightarrow>
             if truthy (sess ''video_sent'') then answer st fs [AlreadyDownloaded]
             else
               (let platform = sess ''platform'';
                    quality = quality_of sess
                in case validate platform message of
                     Inl e \<Rightarrow> raise st fs e
                   | Inr (p, False) \<Rightarrow> answer st fs [InvalidUrl p]
                   | Inr (p, True) \<Rightarrow> download env st fs user_id sess quality message))"

section \<open>The updates the gateway delivers\<close>

text \<open>
  The start command, a pressed button with its payload, and a text message that is not a
  command, each with the sender. \<open>main\<close> registers \<open>menu_handler\<close> for the payloads
  that match \<open>^menu:\<close>, before \<open>button_handler\<close> for all others. An exception that
  leaves a handler is logged by \<open>error_handler\<close>, and the next update is processed.
\<close>

datatype update =
    StartCommand int
  | CallbackQuery int string
  | TextMessage int string

definition dispatch :: "env \<Rightarrow> user_state \<Rightarrow> fs \<Rightarrow> update \<Rightarrow> result" where
  "dispatch env st fs u =
     (case u of
        StartCommand user_id \<Rightarrow> start st fs
      | CallbackQuery user_id data \<Rightarrow>
          if re_match (Lit ''menu:'') data then menu_handler st fs data
          else button_handler st fs user_id data
      | TextMessage user_id text \<Rightarrow> handle_url env st fs user_id text)"

fun run :: "(env \<times> update) list \<Rightarrow> user_state \<Rightarrow> fs \<Rightarrow> user_state \<times> fs" where
  "run [] st fs = (st, fs)"
| "run ((env, u) # us) st fs = run us (state (dispatch env st fs u)) (files (dispatch env st fs u))"

text \<open>The update is the sender's choice of a platform.\<close>

fun selects_platform :: "int \<Rightarrow> update \<Rightarrow> bool" where
  "selects_platform user_id (CallbackQuery sender data) =
     (sender = user_id \<and> startswith data ''platform:'')"
| "selects_platform user_id _ = False"

section \<open>Well-formed sessions\<close>

definition wf_session :: "session \<Rightarrow> bool" where
  "wf_session sess =
     ((case sess ''platform'' of Some (PStr _) \<Rightarrow> True | _ \<Rightarrow> False) \<and>
      (case sess ''video_sent'' of Some (PBool _) \<Rightarrow> True | _ \<Rightarrow> False))"

definition wf_store :: "user_state \<Rightarrow> bool" where
  "wf_store st = (\<forall>user_id sess. st user_id = Some sess \<longrightarrow> wf_session sess)"

section \<open>Sessions that have delivered their video\<close>


section \<open>Concrete requests\<close>

text \<open>
  User 1 has chosen YouTube and no quality yet; then the quality 720p. The token of the
  request is \<open>3f2a9c01de\<close>.
\<close>

definition ex_platform_chosen :: user_state where
  "ex_platform_chosen = state (button_handler Map.empty Map.empty 1 ''platform:YouTube'')"

definition ex_quality_chosen :: user_state where
  "ex_quality_chosen = state (button_handler ex_platform_chosen Map.empty 1 ''quality:720p'')"

definition ex_url :: string where
  "ex_url = ''https://youtu.be/abc123''"

text \<open>An engine that writes a file of 500 MB and returns its title; the upload succeeds.\<close>

definition ex_env_sends :: env where
  "ex_env_sends =
     \<lparr>file_token = ''3f2a9c01de'',
      extract_info =
        (\<lambda>opts url fs. (fs(''downloads/3f2a9c01de.mp4'' \<mapsto> 500000000), Inr \<lparr>title = Some ''A video''\<rparr>)),
      prepare_filename = (\<lambda>opts i. ''downloads/3f2a9c01de.mp4''),
      reply_video = (\<lambda>path cap. None)\<rparr>"

text \<open>An engine that writes a file of 3 GiB.\<close>

definition ex_env_oversize :: env where
  "ex_env_oversize =
     \<lparr>file_token = ''3f2a9c01de'',
      extract_info =
        (\<lambda>opts url fs. (fs(''downloads/3f2a9c01de.mp4'' \<mapsto> 3221225472), Inr \<lparr>title = None\<rparr>)),
      prepare_filename = (\<lambda>opts i. ''downloads/3f2a9c01de.mp4''),
      reply_video = (\<lambda>path cap. None)\<rparr>"

text \<open>An engine that leaves a partly written file and raises a network error.\<close>

definition ex_env_engine_fails :: env where
  "ex_env_engine_fails =
     \<lparr>file_token = ''3f2a9c01de'',
      extract_info =
        (\<lambda>opts url fs. (fs(''downloads/3f2a9c01de.mp4.part'' \<mapsto> 1000), Inl ''network error'')),
      prepare_filename = (\<lambda>opts i. ''downloads/3f2a9c01de.mp4''),
      reply_video = (\<lambda>path cap. None)\<rparr>"


text \<open>A whole conversation of user 1: platform, quality, URL.\<close>

definition ex_conversation :: "(env \<times> update) list" where
  "ex_conversation =
     [(ex_env_sends, StartCommand 1),
      (ex_env_sends, CallbackQuery 1 ''menu:download''),
      (ex_env_sends, CallbackQuery 1 ''platform:YouTube''),
      (ex_env_sends, CallbackQuery 1 ''quality:720p''),
      (ex_env_sends, TextMessage 1 ''https://youtu.be/abc123'')]"

text \<open>An engine that raises and writes nothing.\<close>

definition ex_env_engine_refuses :: env where
  "ex_env_engine_refuses =
     \<lparr>file_token = ''3f2a9c01de'',
      extract_info = (\<lambda>opts url fs. (fs, Inl ''HTTP Error 403: Forbidden'')),
      prepare_filename = (\<lambda>opts i. ''downloads/3f2a9c01de.mp4''),
      reply_video = (\<lambda>path cap. None)\<rparr>"

text \<open>
  User 1 has chosen YouTube, no quality, and has been sent a video; and a user 1 whose
  platform payload was \<open>platform:Instagram\<close>.
\<close>

definition ex_delivered_no_quality :: user_state where
  "ex_delivered_no_quality = state (handle_url ex_env_sends ex_platform_chosen Map.empty 1 ex_url)"

definition ex_unlisted_platform :: user_state where
  "ex_unlisted_platform = state (button_handler Map.empty Map.empty 1 ''platform:Instagram'')"

definition ex_instagram_url :: string where
  "ex_instagram_url = ''https://www.instagram.com/reel/abc''"

text \<open>The rest of the theory proves what the definitions above compute.\<close>

section \<open>What the matcher computes\<close>

lemma dot_plus_rests_set:
  "set (dot_plus_rests s) = {t. \<exists>w. w \<noteq> [] \<and> newline \<notin> set w \<and> s = w @ t}"
proof (induction s)
  case Nil
  then show ?case by simp
next
  case (Cons c cs)
  show ?case
  proof (cases "c = newline")
    case True
    then show ?thesis by (auto simp: Cons_eq_append_conv)
  next
    case False
    have "{t. \<exists>w. w \<noteq> [] \<and> newline \<notin> set w \<and> c # cs = w @ t}
        = insert cs {t. \<exists>w. w \<noteq> [] \<and> newline \<notin> set w \<and> cs = w @ t}" (is "?L = ?R")
    proof (intro set_eqI iffI)
      fix t assume "t \<in> ?L"
      then obtain w where w: "w \<noteq> []" "newline \<notin> set w" "c # cs = w @ t" by blast
      then obtain w' where w': "w = c # w'" "cs = w' @ t" by (auto simp: Cons_eq_append_conv)
      show "t \<in> ?R"
      proof (cases "w' = []")
        case True
        with w' show ?thesis by simp
      next
        case False
        with w w' show ?thesis by auto
      qed
    next
      fix t assume "t \<in> ?R"
      then consider "t = cs" | w where "w \<noteq> []" "newline \<notin> set w" "cs = w @ t" by blast
      then show "t \<in> ?L"
      proof cases
        case 1
        have "[c] \<noteq> [] \<and> newline \<notin> set [c] \<and> c # cs = [c] @ t" using False 1 by simp
        then show ?thesis by blast
      next
        case 2
        then have "c # w \<noteq> [] \<and> newline \<notin> set (c # w) \<and> c # cs = (c # w) @ t"
          using False by simp
        then show ?thesis by blast
      qed
    qed
    with False Cons.IH show ?thesis by simp
  qed
qed

lemma consume_lang: "set (consume r s) = {t. \<exists>w \<in> lang r. s = w @ t}"
proof (induction r arbitrary: s)
  case (Lit w)
  then show ?case by (auto simp: prefix_def)
next
  case (Seq a b)
  then show ?case by fastforce
next
  case (Alt a b)
  then show ?case by auto
next
  case (Opt a)
  then show ?case by auto
next
  case DotPlus
  then show ?case by (auto simp: dot_plus_rests_set)
qed

lemma re_match_iff: "re_match r s \<longleftrightarrow> (\<exists>w \<in> lang r. prefix w s)"
proof -
  have "re_match r s \<longleftrightarrow> set (consume r s) \<noteq> {}" by (simp add: re_match_def)
  also have "\<dots> \<longleftrightarrow> (\<exists>w \<in> lang r. prefix w s)" by (auto simp: consume_lang prefix_def)
  finally show ?thesis .
qed

lemma dot_plus_after:
  "(\<exists>p. p \<noteq> [] \<and> newline \<notin> set p \<and> prefix (pre @ p) u) \<longleftrightarrow> path_starts pre u"
proof
  assume "\<exists>p. p \<noteq> [] \<and> newline \<notin> set p \<and> prefix (pre @ p) u"
  then obtain p t where "p \<noteq> []" "newline \<notin> set p" "u = pre @ p @ t"
    by (auto simp: prefix_def)
  then show "path_starts pre u"
    by (cases p) (auto simp: path_starts_def)
next
  assume "path_starts pre u"
  then obtain c t where u: "u = pre @ c # t" "c \<noteq> newline"
    by (auto simp: path_starts_def prefix_def split: list.splits)
  then have "[c] \<noteq> [] \<and> newline \<notin> set [c] \<and> prefix (pre @ [c]) u"
    by (auto simp: prefix_def)
  then show "\<exists>p. p \<noteq> [] \<and> newline \<notin> set p \<and> prefix (pre @ p) u" by blast
qed

text \<open>The words of a pattern without \<open>.+\<close>, and of such a pattern followed by a rest.\<close>

lemma lang_Seq_heads:
  assumes "lang a = set xs" and "lang b = (\<Union>y\<in>set ys. (@) y ` L)"
  shows "lang (Seq a b) = (\<Union>z\<in>set (concat (map (\<lambda>x. map ((@) x) ys) xs)). (@) z ` L)"
  using assms by fastforce

lemma lang_Seq_words:
  assumes "lang a = set xs" and "lang b = set ys"
  shows "lang (Seq a b) = set (concat (map (\<lambda>x. map ((@) x) ys) xs))"
  using assms by fastforce

lemma lang_Opt_words: "lang a = set xs \<Longrightarrow> lang (Opt a) = set ([] # xs)"
  by simp

lemma lang_Alt_words: "lang a = set xs \<Longrightarrow> lang b = set ys \<Longrightarrow> lang (Alt a b) = set (xs @ ys)"
  by simp

lemma lang_Lit_words: "lang (Lit w) = set [w]"
  by simp

lemma lang_slash_path:
  "lang (Seq (Lit ''/'') DotPlus) = (\<Union>y\<in>set [''/'']. (@) y ` lang DotPlus)"
  by auto

lemma lang_scheme: "lang scheme_re = set spec_schemes"
proof -
  have "lang (Seq (Lit ''http'') (Seq (Opt (Lit ''s'')) (Lit ''://'')))
      = set [''http://'', ''https://'']"
    by (rule trans [OF lang_Seq_words [OF lang_Lit_words
          lang_Seq_words [OF lang_Opt_words [OF lang_Lit_words] lang_Lit_words]]]) simp
  from lang_Opt_words [OF this] show ?thesis
    by (simp only: scheme_re_def spec_schemes_def)
qed

lemma lang_youtube:
  "lang youtube_re = (\<Union>z\<in>set (spec_url_heads ''YouTube''). (@) z ` lang DotPlus)"
proof -
  have sub: "lang (Opt (Lit ''www.'')) = set ['''', ''www.'']"
    by (rule lang_Opt_words [OF lang_Lit_words])
  have dom: "lang (Alt (Lit ''youtube.com'') (Lit ''youtu.be''))
      = set ([''youtube.com''] @ [''youtu.be''])"
    by (rule lang_Alt_words [OF lang_Lit_words lang_Lit_words])
  note l = lang_Seq_heads [OF lang_scheme
      lang_Seq_heads [OF sub lang_Seq_heads [OF dom lang_slash_path]]]
  have "concat (map (\<lambda>x. map ((@) x)
          (concat (map (\<lambda>x. map ((@) x)
             (concat (map (\<lambda>x. map ((@) x) [''/''])
                ([''youtube.com''] @ [''youtu.be'']))))
             ['''', ''www.''])))
          spec_schemes)
      = spec_url_heads ''YouTube''"
    by (simp add: spec_url_heads_def spec_hosts_def spec_schemes_def)
  with l show ?thesis by (simp only: youtube_re_def)
qed

lemma lang_tiktok:
  "lang tiktok_re = (\<Union>z\<in>set (spec_url_heads ''TikTok''). (@) z ` lang DotPlus)"
proof -
  have "lang (Alt (Lit ''www.'') (Alt (Lit ''vm.'') (Lit ''vt.'')))
      = set ([''www.''] @ [''vm.''] @ [''vt.''])"
    by (rule lang_Alt_words [OF lang_Lit_words lang_Alt_words [OF lang_Lit_words lang_Lit_words]])
  note sub = lang_Opt_words [OF this]
  note l = lang_Seq_heads [OF lang_scheme
      lang_Seq_heads [OF sub lang_Seq_heads [OF lang_Lit_words lang_slash_path]]]
  have "concat (map (\<lambda>x. map ((@) x)
          (concat (map (\<lambda>x. map ((@) x)
             (concat (map (\<lambda>x. map ((@) x) [''/'']) [''tiktok.com''])))
             ([] # [''www.''] @ [''vm.''] @ [''vt.'']))))
          spec_schemes)
      = spec_url_heads ''TikTok''"
    by (simp add: spec_url_heads_def spec_hosts_def spec_schemes_def)
  with l show ?thesis by (simp only: tiktok_re_def)
qed

lemma lang_facebook:
  "lang facebook_re = (\<Union>z\<in>set (spec_url_heads ''Facebook''). (@) z ` lang DotPlus)"
proof -
  have "lang (Alt (Lit ''www.'') (Lit ''m.'')) = set ([''www.''] @ [''m.''])"
    by (rule lang_Alt_words [OF lang_Lit_words lang_Lit_words])
  note sub = lang_Opt_words [OF this]
  note l = lang_Seq_heads [OF lang_scheme
      lang_Seq_heads [OF sub lang_Seq_heads [OF lang_Lit_words lang_slash_path]]]
  have "concat (map (\<lambda>x. map ((@) x)
          (concat (map (\<lambda>x. map ((@) x)
             (concat (map (\<lambda>x. map ((@) x) [''/'']) [''facebook.com''])))
             ([] # [''www.''] @ [''m.'']))))
          spec_schemes)
      = spec_url_heads ''Facebook''"
    by (simp add: spec_url_heads_def spec_hosts_def spec_schemes_def)
  with l show ?thesis by (simp only: facebook_re_def)
qed

lemma re_match_heads:
  assumes "lang r = (\<Union>z\<in>set zs. (@) z ` lang DotPlus)"
  shows "re_match r u = list_ex (\<lambda>pre. path_starts pre u) zs"
proof -
  have "re_match r u \<longleftrightarrow> (\<exists>z\<in>set zs. \<exists>p. p \<noteq> [] \<and> newline \<notin> set p \<and> prefix (z @ p) u)"
    unfolding re_match_iff assms by auto
  then show ?thesis by (simp add: dot_plus_after list_ex_iff)
qed

lemma patterns_accept:
  assumes "patterns platform = Some r"
  shows "re_match r url = accepted_url platform url"
proof -
  consider "platform = ''YouTube''" "r = youtube_re"
    | "platform = ''TikTok''" "r = tiktok_re"
    | "platform = ''Facebook''" "r = facebook_re"
    using assms by (auto simp: patterns_def split: if_splits)
  then show ?thesis
  proof cases
    case 1
    then show ?thesis by (simp only: re_match_heads [OF lang_youtube] accepted_url_def)
  next
    case 2
    then show ?thesis by (simp only: re_match_heads [OF lang_tiktok] accepted_url_def)
  next
    case 3
    then show ?thesis by (simp only: re_match_heads [OF lang_facebook] accepted_url_def)
  qed
qed

lemma patterns_dom: "patterns platform = None \<longleftrightarrow> platform \<notin> set PLATFORMS"
  by (simp add: patterns_def PLATFORMS_def)

lemma is_valid_url_cases:
  "is_valid_url platform url =
     (if platform \<in> set PLATFORMS then Inr (accepted_url platform url) else Inl KeyError)"
proof (cases "patterns platform")
  case None
  then show ?thesis using patterns_dom [of platform] by (simp add: is_valid_url_def)
next
  case (Some r)
  then have "platform \<in> set PLATFORMS" using patterns_dom [of platform] by auto
  with Some patterns_accept [OF Some, of url] show ?thesis by (simp add: is_valid_url_def)
qed

lemma accepted_url_domain: "accepted_url platform url \<Longrightarrow> spec_domain_url platform url"
  by (auto simp: accepted_url_def spec_domain_url_def path_starts_def list_ex_iff)

section \<open>The URL validator\<close>

text \<open>
  C1, as stated, fails: \<open>https://youtube.com/\<close> has YouTube's canonical domain, a scheme
  and the path \<open>/\<close>, and the validator returns false, since the pattern asks for a
  character after the slash.
\<close>

theorem canonical_domain_bare_slash_rejected:
  "spec_domain_url ''YouTube'' ''https://youtube.com/'' \<and>
   is_valid_url ''YouTube'' ''https://youtube.com/'' = Inr False"
  by (simp add: spec_domain_url_def spec_url_heads_def spec_hosts_def spec_schemes_def
      is_valid_url_def patterns_def youtube_re_def scheme_re_def re_match_def)

text \<open>
  C1, amended: for each of the three platforms the validator returns true exactly when the
  URL is an optional \<open>http://\<close> or \<open>https://\<close>, one of the platform's hosts, a slash and
  at least one more character, which is not a line feed; so it returns false for a URL of
  any other domain.
\<close>

theorem is_valid_url_accepts:
  assumes "platform \<in> set PLATFORMS"
  shows "is_valid_url platform url = Inr (accepted_url platform url) \<and>
         (\<not> spec_domain_url platform url \<longrightarrow> is_valid_url platform url = Inr False)"
  using assms accepted_url_domain [of platform url] by (auto simp: is_valid_url_cases)

theorem is_valid_url_accepts_witness:
  "is_valid_url ''TikTok'' ''https://vt.tiktok.com/ZSabc/'' = Inr True \<and>
   is_valid_url ''TikTok'' ''https://www.facebook.com/watch'' = Inr False"
proof -
  have p: "''TikTok'' \<in> set PLATFORMS" by (simp add: PLATFORMS_def)
  have d: "\<not> spec_domain_url ''TikTok'' ''https://www.facebook.com/watch''"
    by (simp add: spec_domain_url_def spec_url_heads_def spec_hosts_def spec_schemes_def)
  have a: "accepted_url ''TikTok'' ''https://vt.tiktok.com/ZSabc/''"
    by (simp add: accepted_url_def path_starts_def spec_url_heads_def spec_hosts_def
        spec_schemes_def newline_def)
  have "is_valid_url ''TikTok'' ''https://vt.tiktok.com/ZSabc/'' = Inr True"
    using a is_valid_url_accepts [OF p, of "''https://vt.tiktok.com/ZSabc/''"] by simp
  moreover have "is_valid_url ''TikTok'' ''https://www.facebook.com/watch'' = Inr False"
    using d is_valid_url_accepts [OF p, of "''https://www.facebook.com/watch''"] by blast
  ultimately show ?thesis by simp
qed

text \<open>
  C9, as stated, fails: for a platform string that is not a key of \<open>patterns\<close> the lookup
  raises KeyError.
\<close>

theorem is_valid_url_unknown_platform_raises:
  "is_valid_url ''Instagram'' ''https://www.instagram.com/reel/abc'' = Inl KeyError"
  by (simp add: is_valid_url_def patterns_def)

text \<open>
  C9, amended: the validator is a function of its two strings alone. For the three
  platforms it never raises, whatever the URL (malformed or empty), and returns false on
  every URL it does not recognise; for any other platform string it raises KeyError.
\<close>

theorem is_valid_url_never_raises_on_platforms:
  "is_valid_url platform url =
     (if platform \<in> set PLATFORMS then Inr (accepted_url platform url) else Inl KeyError) \<and>
   \<not> accepted_url platform []"
  by (simp add: is_valid_url_cases accepted_url_def path_starts_def list_ex_iff)

section \<open>The guards of the URL handler\<close>

lemma handle_url_no_session:
  "st uid = None \<Longrightarrow> handle_url env st fs uid msg = answer st fs [StartFirst]"
  by (simp add: handle_url_def)

lemma handle_url_sent:
  "st uid = Some sess \<Longrightarrow> truthy (sess ''video_sent'') \<Longrightarrow>
   handle_url env st fs uid msg = answer st fs [AlreadyDownloaded]"
  by (simp add: handle_url_def)

lemma handle_url_invalid:
  "st uid = Some sess \<Longrightarrow> \<not> truthy (sess ''video_sent'') \<Longrightarrow>
   sess ''platform'' = Some (PStr p) \<Longrightarrow> is_valid_url p (strip msg) = Inr False \<Longrightarrow>
   handle_url env st fs uid msg = answer st fs [InvalidUrl p]"
  by (simp add: handle_url_def validate_def)

lemma handle_url_valid:
  "st uid = Some sess \<Longrightarrow> \<not> truthy (sess ''video_sent'') \<Longrightarrow>
   sess ''platform'' = Some (PStr p) \<Longrightarrow> is_valid_url p (strip msg) = Inr True \<Longrightarrow>
   handle_url env st fs uid msg = download env st fs uid sess (quality_of sess) (strip msg)"
  by (simp add: handle_url_def validate_def quality_of_def)

lemma handle_url_validator_raises:
  "st uid = Some sess \<Longrightarrow> \<not> truthy (sess ''video_sent'') \<Longrightarrow>
   validate (sess ''platform'') (strip msg) = Inl e \<Longrightarrow>
   handle_url env st fs uid msg = raise st fs e"
  by (simp add: handle_url_def)

lemma handle_url_unlisted_platform:
  "st uid = Some sess \<Longrightarrow> \<not> truthy (sess ''video_sent'') \<Longrightarrow>
   sess ''platform'' = Some (PStr p) \<Longrightarrow> p \<notin> set PLATFORMS \<Longrightarrow>
   handle_url env st fs uid msg = raise st fs KeyError"
  by (simp add: handle_url_def validate_def is_valid_url_cases)


section \<open>The paths of the download\<close>

lemma download_engine_calls:
  "engine_calls (download env st fs uid sess (PStr q) message) =
     [(ydl_options (replace_p q) (file_token env), message)]"
  by (simp add: download_def except_block_def Let_def split: prod.splits sum.splits option.splits)

lemma download_engine_raises:
  assumes "extract_info env (ydl_options (replace_p q) (file_token env)) message fs = (fs1, Inl e)"
  shows "download env st fs uid sess (PStr q) message =
           \<lparr>state = st, files = fs1,
            replies = [Downloading, DownloadError e],
            engine_calls = [(ydl_options (replace_p q) (file_token env), message)],
            outcome = Raised UnboundLocalError\<rparr>"
  using assms by (simp add: download_def except_block_def Let_def)

lemma download_file_missing:
  assumes "extract_info env (ydl_options (replace_p q) (file_token env)) message fs = (fs1, Inr i)"
    and "fs1 (prepare_filename env (ydl_options (replace_p q) (file_token env)) i) = None"
  shows "download env st fs uid sess (PStr q) message =
           \<lparr>state = st, files = fs1,
            replies = [Downloading, FileNotFound],
            engine_calls = [(ydl_options (replace_p q) (file_token env), message)],
            outcome = Returned\<rparr>"
  using assms by (simp add: download_def Let_def)

lemma download_oversize:
  assumes "extract_info env (ydl_options (replace_p q) (file_token env)) message fs = (fs1, Inr i)"
    and "fs1 (prepare_filename env (ydl_options (replace_p q) (file_token env)) i) = Some sz"
    and "sz > size_limit"
  shows "download env st fs uid sess (PStr q) message =
           \<lparr>state = st,
            files = fs1(prepare_filename env (ydl_options (replace_p q) (file_token env)) i := None),
            replies = [Downloading, FileTooLarge],
            engine_calls = [(ydl_options (replace_p q) (file_token env), message)],
            outcome = Returned\<rparr>"
  using assms by (simp add: download_def Let_def)

lemma download_send_fails:
  assumes "extract_info env (ydl_options (replace_p q) (file_token env)) message fs = (fs1, Inr i)"
    and "fs1 (prepare_filename env (ydl_options (replace_p q) (file_token env)) i) = Some sz"
    and "\<not> sz > size_limit"
    and "reply_video env (prepare_filename env (ydl_options (replace_p q) (file_token env)) i)
           (caption i) = Some e"
  shows "download env st fs uid sess (PStr q) message =
           \<lparr>state = st(uid \<mapsto> sess(''video_sent'' \<mapsto> PBool False)),
            files = fs1(prepare_filename env (ydl_options (replace_p q) (file_token env)) i := None),
            replies = [Downloading, DownloadError e],
            engine_calls = [(ydl_options (replace_p q) (file_token env), message)],
            outcome = Returned\<rparr>"
  using assms by (simp add: download_def except_block_def Let_def)

lemma download_sent:
  assumes "extract_info env (ydl_options (replace_p q) (file_token env)) message fs = (fs1, Inr i)"
    and "fs1 (prepare_filename env (ydl_options (replace_p q) (file_token env)) i) = Some sz"
    and "\<not> sz > size_limit"
    and "reply_video env (prepare_filename env (ydl_options (replace_p q) (file_token env)) i)
           (caption i) = None"
  shows "download env st fs uid sess (PStr q) message =
           \<lparr>state = st(uid \<mapsto> sess(''video_sent'' \<mapsto> PBool True)),
            files = fs1(prepare_filename env (ydl_options (replace_p q) (file_token env)) i := None),
            replies = [Downloading,
                       Video (prepare_filename env (ydl_options (replace_p q) (file_token env)) i)
                         (caption i),
                       SentOk],
            engine_calls = [(ydl_options (replace_p q) (file_token env), message)],
            outcome = Returned\<rparr>"
  using assms by (simp add: download_def Let_def)

text \<open>Whenever the engine returns, the file it names is gone when the download returns.\<close>

lemma download_output_removed:
  assumes "extract_info env (ydl_options (replace_p q) (file_token env)) message fs = (fs1, Inr i)"
  shows "files (download env st fs uid sess (PStr q) message)
           (prepare_filename env (ydl_options (replace_p q) (file_token env)) i) = None"
  using assms
  by (simp add: download_def except_block_def Let_def split: option.splits)

text \<open>The download changes the store at most in the flag of the sender's session.\<close>

lemma download_state:
  "state (download env st fs uid sess quality message) = st \<or>
   (\<exists>b. state (download env st fs uid sess quality message) =
          st(uid \<mapsto> sess(''video_sent'' \<mapsto> PBool b)))"
  by (auto simp: download_def except_block_def Let_def
      split: pyval.splits prod.splits sum.splits option.splits)


lemma handle_url_state:
  "state (handle_url env st fs uid msg) = st \<or>
   (\<exists>sess b. st uid = Some sess \<and>
      state (handle_url env st fs uid msg) = st(uid \<mapsto> sess(''video_sent'' \<mapsto> PBool b)))"
proof (cases "st uid")
  case None
  then show ?thesis by (simp add: handle_url_no_session answer_def)
next
  case (Some sess)
  show ?thesis
  proof (cases "truthy (sess ''video_sent'')")
    case True
    with Some show ?thesis by (simp add: handle_url_sent answer_def)
  next
    case False
    show ?thesis
    proof (cases "validate (sess ''platform'') (strip msg)")
      case (Inl e)
      with Some False show ?thesis by (simp add: handle_url_def raise_def)
    next
      case (Inr pb)
      obtain p b where pb: "pb = (p, b)" by (cases pb)
      show ?thesis
      proof (cases b)
        case True
        with Some False Inr pb
        have "handle_url env st fs uid msg =
                download env st fs uid sess (quality_of sess) (strip msg)"
          by (simp add: handle_url_def quality_of_def)
        with Some download_state [of env st fs uid sess "quality_of sess" "strip msg"]
        show ?thesis by auto
      next
        case False
        with Some \<open>\<not> truthy (sess ''video_sent'')\<close> Inr pb show ?thesis
          by (simp add: handle_url_def answer_def)
      qed
    qed
  qed
qed


section \<open>The concrete requests\<close>

lemma ex_platform_chosen_eq:
  "ex_platform_chosen =
     [1 \<mapsto> [''platform'' \<mapsto> PStr ''YouTube'', ''video_sent'' \<mapsto> PBool False]]"
  by (simp add: ex_platform_chosen_def button_handler_def startswith_def answer_def)

lemma ex_quality_chosen_eq:
  "ex_quality_chosen =
     [1 \<mapsto> [''platform'' \<mapsto> PStr ''YouTube'', ''video_sent'' \<mapsto> PBool False,
            ''quality'' \<mapsto> PStr ''720p'']]"
  by (simp add: ex_quality_chosen_def ex_platform_chosen_eq button_handler_def startswith_def
      answer_def)

lemma strip_ex_url: "strip ex_url = ex_url"
  by (simp add: ex_url_def strip_def is_space_def)

lemma ex_url_valid: "is_valid_url ''YouTube'' ex_url = Inr True"
  by (simp add: ex_url_def is_valid_url_def patterns_def youtube_re_def scheme_re_def
      re_match_def newline_def)

lemma tiktok_url_invalid_for_youtube:
  "is_valid_url ''YouTube'' (strip ''https://www.tiktok.com/@u/video/1'') = Inr False"
  by (simp add: strip_def is_space_def is_valid_url_def patterns_def youtube_re_def
      scheme_re_def re_match_def newline_def)

lemma ex_delivery:
  "handle_url ex_env_sends ex_quality_chosen Map.empty 1 ex_url =
     \<lparr>state = [1 \<mapsto> [''platform'' \<mapsto> PStr ''YouTube'', ''video_sent'' \<mapsto> PBool True,
                      ''quality'' \<mapsto> PStr ''720p'']],
      files = Map.empty,
      replies = [Downloading, Video ''downloads/3f2a9c01de.mp4'' ''A video'', SentOk],
      engine_calls = [(ydl_options ''720'' ''3f2a9c01de'', ex_url)],
      outcome = Returned\<rparr>"
proof -
  have "[1 \<mapsto> [''platform'' \<mapsto> PStr ''YouTube'', ''video_sent'' \<mapsto> PBool False,
               ''quality'' \<mapsto> PStr ''720p'', ''video_sent'' \<mapsto> PBool True]] =
        ([1 \<mapsto> [''platform'' \<mapsto> PStr ''YouTube'', ''video_sent'' \<mapsto> PBool True,
               ''quality'' \<mapsto> PStr ''720p'']] :: user_state)"
    by (rule ext) (auto simp: fun_upd_def)
  moreover have "([''downloads/3f2a9c01de.mp4'' \<mapsto> 500000000]
       (''downloads/3f2a9c01de.mp4'' := None) :: fs) = Map.empty"
    by simp
  ultimately show ?thesis
    using ex_url_valid
    by (simp add: ex_quality_chosen_eq handle_url_def validate_def quality_of_def strip_ex_url
        download_def Let_def replace_p_def ex_env_sends_def size_limit_def caption_def)
qed

lemma ex_unlisted_platform_eq:
  "ex_unlisted_platform =
     [1 \<mapsto> [''platform'' \<mapsto> PStr ''Instagram'', ''video_sent'' \<mapsto> PBool False]]"
  by (simp add: ex_unlisted_platform_def button_handler_def startswith_def answer_def)

lemma ex_delivered_no_quality_eq:
  "ex_delivered_no_quality =
     [1 \<mapsto> [''platform'' \<mapsto> PStr ''YouTube'', ''video_sent'' \<mapsto> PBool True]]"
  using ex_url_valid
  by (simp add: ex_delivered_no_quality_def ex_platform_chosen_eq handle_url_def validate_def
      quality_of_def strip_ex_url download_def Let_def replace_p_def ex_env_sends_def
      size_limit_def caption_def)

section \<open>The height ceiling\<close>

lemma format_height_of_p_labels:
  "replace_p ''360p'' = ''360'' \<and> replace_p ''720p'' = ''720'' \<and> replace_p ''1080p'' = ''1080''"
  by (simp add: replace_p_def)

lemma ydl_options_format:
  "format (ydl_options h token) = ''best[height<='' @ h @ '']/best''"
  by (simp add: ydl_options_def)

text \<open>
  C2, as stated, fails at the quality label \<open>2k\<close>: stripping the trailing unit gives
  \<open>2\<close>, but the code removes only the letter \<open>p\<close>, so the label stays as it is
  and the format handed to the engine has the ceiling \<open>2k\<close>.
\<close>

theorem height_ceiling_2k_keeps_unit:
  "''2k'' \<in> set QUALITIES \<and>
   spec_strip_unit ''2k'' = ''2'' \<and>
   replace_p ''2k'' = ''2k'' \<and>
   replace_p ''2k'' \<noteq> spec_strip_unit ''2k'' \<and>
   format (ydl_options (replace_p ''2k'') ''3f2a9c01de'') = ''best[height<=2k]/best''"
  by (simp add: QUALITIES_def spec_strip_unit_def replace_p_def ydl_options_def)

text \<open>
  C2, amended: for the labels \<open>360p\<close>, \<open>720p\<close> and \<open>1080p\<close> the ceiling is the
  label with its trailing unit stripped, a number; for \<open>2k\<close> it is the label itself.
  The format handed to the engine is \<open>best[height<=\<close>ceiling\<open>]/best\<close>: the best stream
  at or below the ceiling, or else the best stream. The download calls the engine once,
  with this format and the message.
\<close>

theorem height_ceiling_of_quality_labels:
  "QUALITIES = [''360p'', ''720p'', ''1080p'', ''2k''] \<and>
   replace_p ''360p'' = spec_strip_unit ''360p'' \<and> numeric (replace_p ''360p'') \<and>
   replace_p ''720p'' = spec_strip_unit ''720p'' \<and> numeric (replace_p ''720p'') \<and>
   replace_p ''1080p'' = spec_strip_unit ''1080p'' \<and> numeric (replace_p ''1080p'') \<and>
   format (ydl_options (replace_p ''360p'') token) = ''best[height<=360]/best'' \<and>
   format (ydl_options (replace_p ''720p'') token) = ''best[height<=720]/best'' \<and>
   format (ydl_options (replace_p ''1080p'') token) = ''best[height<=1080]/best'' \<and>
   format (ydl_options (replace_p ''2k'') token) = ''best[height<=2k]/best'' \<and>
   engine_calls (download env st fs uid sess (PStr q) message) =
     [(ydl_options (replace_p q) (file_token env), message)]"
  by (simp add: QUALITIES_def spec_strip_unit_def replace_p_def numeric_def is_digit_def
      ydl_options_def download_engine_calls)

section \<open>The three guards\<close>

text \<open>
  C5, as stated, fails: the platform of a session is whatever text the platform payload
  carried. For the session that the payload \<open>platform:Instagram\<close> creates, guard (c)
  neither passes nor reports an invalid URL: the validator raises KeyError, and the
  handler is left by that exception without a reply.
\<close>

theorem unlisted_platform_message_raises:
  "ex_unlisted_platform 1 =
     Some [''platform'' \<mapsto> PStr ''Instagram'', ''video_sent'' \<mapsto> PBool False] \<and>
   handle_url ex_env_sends ex_unlisted_platform Map.empty 1 ex_instagram_url =
     \<lparr>state = ex_unlisted_platform, files = Map.empty, replies = [], engine_calls = [],
      outcome = Raised KeyError\<rparr>"
  by (simp add: ex_unlisted_platform_eq handle_url_def validate_def is_valid_url_def
      patterns_def raise_def)

text \<open>
  C5, amended: the handler checks, in this order, that the sender has a session, that the
  session's flag is not set, and that the validator accepts the message for the session's
  platform. Each failed guard gives its own reply, leaves the store and the files as they
  were and makes no engine call; when all three pass, the handler goes on with the
  download. When the session's platform is not one of the three platforms, the validator
  raises KeyError at the third guard: the handler sends no reply and is left by that
  exception, again with the store and the files as they were and no engine call.
\<close>

theorem handle_url_guards:
  "(st uid = None \<longrightarrow>
      handle_url env st fs uid msg =
        \<lparr>state = st, files = fs, replies = [StartFirst], engine_calls = [],
         outcome = Returned\<rparr>) \<and>
   (st uid = Some sess \<and> truthy (sess ''video_sent'') \<longrightarrow>
      handle_url env st fs uid msg =
        \<lparr>state = st, files = fs, replies = [AlreadyDownloaded], engine_calls = [],
         outcome = Returned\<rparr>) \<and>
   (st uid = Some sess \<and> \<not> truthy (sess ''video_sent'') \<and>
    sess ''platform'' = Some (PStr p) \<and> is_valid_url p (strip msg) = Inr False \<longrightarrow>
      handle_url env st fs uid msg =
        \<lparr>state = st, files = fs, replies = [InvalidUrl p], engine_calls = [],
         outcome = Returned\<rparr>) \<and>
   (st uid = Some sess \<and> \<not> truthy (sess ''video_sent'') \<and>
    sess ''platform'' = Some (PStr p) \<and> is_valid_url p (strip msg) = Inr True \<longrightarrow>
      handle_url env st fs uid msg =
        download env st fs uid sess (quality_of sess) (strip msg)) \<and>
   (st uid = Some sess \<and> \<not> truthy (sess ''video_sent'') \<and>
    sess ''platform'' = Some (PStr p) \<and> p \<notin> set PLATFORMS \<longrightarrow>
      handle_url env st fs uid msg =
        \<lparr>state = st, files = fs, replies = [], engine_calls = [],
         outcome = Raised KeyError\<rparr>) \<and>
   (p \<in> set PLATFORMS \<longrightarrow>
      is_valid_url p (strip msg) = Inr False \<or> is_valid_url p (strip msg) = Inr True)"
  using handle_url_no_session [where st = st and uid = uid and env = env and fs = fs]
    handle_url_sent [where st = st and uid = uid and sess = sess and env = env and fs = fs]
    handle_url_invalid [where st = st and uid = uid and sess = sess and p = p and env = env
      and fs = fs]
    handle_url_valid [where st = st and uid = uid and sess = sess and p = p and env = env
      and fs = fs]
    handle_url_unlisted_platform [where st = st and uid = uid and sess = sess and p = p
      and env = env and fs = fs]
  by (simp add: answer_def raise_def is_valid_url_cases)

theorem handle_url_guards_witness:
  "handle_url ex_env_sends Map.empty Map.empty 1 ex_url =
     \<lparr>state = Map.empty, files = Map.empty, replies = [StartFirst], engine_calls = [],
      outcome = Returned\<rparr> \<and>
   handle_url ex_env_sends
       [1 \<mapsto> [''platform'' \<mapsto> PStr ''YouTube'', ''video_sent'' \<mapsto> PBool True]] Map.empty 1 ex_url =
     \<lparr>state = [1 \<mapsto> [''platform'' \<mapsto> PStr ''YouTube'', ''video_sent'' \<mapsto> PBool True]],
      files = Map.empty, replies = [AlreadyDownloaded], engine_calls = [],
      outcome = Returned\<rparr> \<and>
   handle_url ex_env_sends ex_quality_chosen Map.empty 1 ''https://www.tiktok.com/@u/video/1'' =
     \<lparr>state = ex_quality_chosen, files = Map.empty, replies = [InvalidUrl ''YouTube''],
      engine_calls = [], outcome = Returned\<rparr> \<and>
   handle_url ex_env_sends ex_quality_chosen Map.empty 1 ex_url =
     download ex_env_sends ex_quality_chosen Map.empty 1
       [''platform'' \<mapsto> PStr ''YouTube'', ''video_sent'' \<mapsto> PBool False,
        ''quality'' \<mapsto> PStr ''720p'']
       (PStr ''720p'') ex_url \<and>
   handle_url ex_env_sends ex_unlisted_platform Map.empty 1 ex_url =
     \<lparr>state = ex_unlisted_platform, files = Map.empty, replies = [], engine_calls = [],
      outcome = Raised KeyError\<rparr>"
proof -
  let ?sent = "[''platform'' \<mapsto> PStr ''YouTube'', ''video_sent'' \<mapsto> PBool True]"
  let ?sess = "[''platform'' \<mapsto> PStr ''YouTube'', ''video_sent'' \<mapsto> PBool False,
                ''quality'' \<mapsto> PStr ''720p'']"
  let ?insta = "[''platform'' \<mapsto> PStr ''Instagram'', ''video_sent'' \<mapsto> PBool False]"
  have q: "quality_of ?sess = PStr ''720p''" by (simp add: quality_of_def)
  have n: "''Instagram'' \<notin> set PLATFORMS" by (simp add: PLATFORMS_def)
  have 1: "handle_url ex_env_sends Map.empty Map.empty 1 ex_url =
     \<lparr>state = Map.empty, files = Map.empty, replies = [StartFirst], engine_calls = [],
      outcome = Returned\<rparr>"
    using handle_url_guards [where st = Map.empty and uid = 1 and env = ex_env_sends
        and fs = Map.empty and msg = ex_url]
    by simp
  have 2: "handle_url ex_env_sends [1 \<mapsto> ?sent] Map.empty 1 ex_url =
     \<lparr>state = [1 \<mapsto> ?sent], files = Map.empty, replies = [AlreadyDownloaded],
      engine_calls = [], outcome = Returned\<rparr>"
    using handle_url_guards [where st = "[1 \<mapsto> ?sent]" and uid = 1 and sess = ?sent
        and env = ex_env_sends and fs = Map.empty and msg = ex_url]
    by simp
  have 3: "handle_url ex_env_sends ex_quality_chosen Map.empty 1
       ''https://www.tiktok.com/@u/video/1'' =
     \<lparr>state = ex_quality_chosen, files = Map.empty, replies = [InvalidUrl ''YouTube''],
      engine_calls = [], outcome = Returned\<rparr>"
    using handle_url_guards [where st = ex_quality_chosen and uid = 1 and sess = ?sess
        and p = "''YouTube''" and msg = "''https://www.tiktok.com/@u/video/1''"
        and env = ex_env_sends and fs = Map.empty]
      tiktok_url_invalid_for_youtube
    by (simp add: ex_quality_chosen_eq)
  have 4: "handle_url ex_env_sends ex_quality_chosen Map.empty 1 ex_url =
     download ex_env_sends ex_quality_chosen Map.empty 1 ?sess (PStr ''720p'') ex_url"
    using handle_url_guards [where st = ex_quality_chosen and uid = 1 and sess = ?sess
        and p = "''YouTube''" and msg = ex_url and env = ex_env_sends and fs = Map.empty]
      ex_url_valid q
    by (simp add: ex_quality_chosen_eq strip_ex_url)
  have 5: "handle_url ex_env_sends ex_unlisted_platform Map.empty 1 ex_url =
     \<lparr>state = ex_unlisted_platform, files = Map.empty, replies = [], engine_calls = [],
      outcome = Raised KeyError\<rparr>"
    using handle_url_guards [where st = ex_unlisted_platform and uid = 1 and sess = ?insta
        and p = "''Instagram''" and msg = ex_url and env = ex_env_sends and fs = Map.empty]
      n
    by (simp add: ex_unlisted_platform_eq)
  from 1 2 3 4 5 show ?thesis by blast
qed

section \<open>A URL before a quality\<close>

text \<open>
  C4, as stated, fails: user 1 has chosen YouTube and no quality, sends a YouTube URL, and
  the engine is called with the ceiling 720; the video is sent.
\<close>

theorem url_before_quality_is_downloaded:
  "ex_platform_chosen 1 = Some [''platform'' \<mapsto> PStr ''YouTube'', ''video_sent'' \<mapsto> PBool False] \<and>
   replies (handle_url ex_env_sends ex_platform_chosen Map.empty 1 ex_url) =
     [Downloading, Video ''downloads/3f2a9c01de.mp4'' ''A video'', SentOk] \<and>
   engine_calls (handle_url ex_env_sends ex_platform_chosen Map.empty 1 ex_url) =
     [(ydl_options ''720'' ''3f2a9c01de'', ex_url)]"
  using ex_url_valid
  by (simp add: ex_platform_chosen_eq handle_url_def validate_def quality_of_def strip_ex_url
      download_def Let_def replace_p_def ex_env_sends_def size_limit_def caption_def)

text \<open>
  C4, amended: for a session with a platform and no quality, as long as the flag of the
  session is not set, a message that the validator accepts is downloaded with the quality
  720p, the engine being called once with the ceiling 720; a message that the validator
  rejects gets the invalid-URL reply and no engine call; and when the platform is not one
  of the three, the validator raises KeyError, with no reply and no engine call. Once the
  flag is set (a video has been delivered with the default quality), every message gets
  the reply that the video has already been downloaded, and no engine call.
\<close>

theorem url_before_quality_defaults_to_720p:
  assumes "st uid = Some sess" and "sess ''quality'' = None"
    and "sess ''platform'' = Some (PStr p)"
  shows "(\<not> truthy (sess ''video_sent'') \<and> is_valid_url p (strip msg) = Inr True \<longrightarrow>
            handle_url env st fs uid msg =
              download env st fs uid sess (PStr ''720p'') (strip msg) \<and>
            engine_calls (handle_url env st fs uid msg) =
              [(ydl_options ''720'' (file_token env), strip msg)]) \<and>
         (\<not> truthy (sess ''video_sent'') \<and> is_valid_url p (strip msg) = Inr False \<longrightarrow>
            handle_url env st fs uid msg =
              \<lparr>state = st, files = fs, replies = [InvalidUrl p], engine_calls = [],
               outcome = Returned\<rparr>) \<and>
         (\<not> truthy (sess ''video_sent'') \<and> p \<notin> set PLATFORMS \<longrightarrow>
            handle_url env st fs uid msg =
              \<lparr>state = st, files = fs, replies = [], engine_calls = [],
               outcome = Raised KeyError\<rparr>) \<and>
         (truthy (sess ''video_sent'') \<longrightarrow>
            handle_url env st fs uid msg =
              \<lparr>state = st, files = fs, replies = [AlreadyDownloaded], engine_calls = [],
               outcome = Returned\<rparr>)"
proof -
  have q: "quality_of sess = PStr ''720p''" using assms(2) by (simp add: quality_of_def)
  have r: "replace_p ''720p'' = ''720''" by (simp add: replace_p_def)
  show ?thesis
    using assms handle_url_valid [where st = st and uid = uid and sess = sess and p = p
        and msg = msg and env = env and fs = fs]
      handle_url_invalid [where st = st and uid = uid and sess = sess and p = p
        and msg = msg and env = env and fs = fs]
      handle_url_unlisted_platform [where st = st and uid = uid and sess = sess and p = p
        and msg = msg and env = env and fs = fs]
      handle_url_sent [where st = st and uid = uid and sess = sess and msg = msg
        and env = env and fs = fs]
    by (simp add: q r download_engine_calls answer_def raise_def)
qed

theorem url_before_quality_defaults_to_720p_witness:
  "engine_calls (handle_url ex_env_sends ex_platform_chosen Map.empty 1 ex_url) =
     [(ydl_options ''720'' ''3f2a9c01de'', ex_url)] \<and>
   handle_url ex_env_sends ex_platform_chosen Map.empty 1 ''https://www.tiktok.com/@u/video/1'' =
     \<lparr>state = ex_platform_chosen, files = Map.empty, replies = [InvalidUrl ''YouTube''],
      engine_calls = [], outcome = Returned\<rparr> \<and>
   handle_url ex_env_sends ex_unlisted_platform Map.empty 1 ex_instagram_url =
     \<lparr>state = ex_unlisted_platform, files = Map.empty, replies = [], engine_calls = [],
      outcome = Raised KeyError\<rparr> \<and>
   ex_delivered_no_quality 1 =
     Some [''platform'' \<mapsto> PStr ''YouTube'', ''video_sent'' \<mapsto> PBool True] \<and>
   handle_url ex_env_sends ex_delivered_no_quality Map.empty 1 ex_url =
     \<lparr>state = ex_delivered_no_quality, files = Map.empty, replies = [AlreadyDownloaded],
      engine_calls = [], outcome = Returned\<rparr>"
proof -
  let ?sess = "[''platform'' \<mapsto> PStr ''YouTube'', ''video_sent'' \<mapsto> PBool False]"
  let ?insta = "[''platform'' \<mapsto> PStr ''Instagram'', ''video_sent'' \<mapsto> PBool False]"
  let ?sent = "[''platform'' \<mapsto> PStr ''YouTube'', ''video_sent'' \<mapsto> PBool True]"
  have a: "ex_platform_chosen 1 = Some ?sess" by (simp add: ex_platform_chosen_eq)
  have b: "?sess ''quality'' = None" by simp
  have c: "\<not> truthy (?sess ''video_sent'')" by simp
  have d: "?sess ''platform'' = Some (PStr ''YouTube'')" by simp
  have t: "file_token ex_env_sends = ''3f2a9c01de''" by (simp add: ex_env_sends_def)
  note inst = url_before_quality_defaults_to_720p [where st = ex_platform_chosen and uid = 1
      and sess = ?sess and p = "''YouTube''" and env = ex_env_sends and fs = Map.empty,
      OF a b d]
  have 1: "engine_calls (handle_url ex_env_sends ex_platform_chosen Map.empty 1 ex_url) =
          [(ydl_options ''720'' ''3f2a9c01de'', ex_url)]"
    using inst [of ex_url] c ex_url_valid unfolding strip_ex_url t by blast
  have 2: "handle_url ex_env_sends ex_platform_chosen Map.empty 1
          ''https://www.tiktok.com/@u/video/1'' =
          \<lparr>state = ex_platform_chosen, files = Map.empty, replies = [InvalidUrl ''YouTube''],
           engine_calls = [], outcome = Returned\<rparr>"
    using inst [of "''https://www.tiktok.com/@u/video/1''"] c tiktok_url_invalid_for_youtube
    by blast
  have ia: "ex_unlisted_platform 1 = Some ?insta" by (simp add: ex_unlisted_platform_eq)
  have ib: "?insta ''quality'' = None" by simp
  have ic: "\<not> truthy (?insta ''video_sent'')" by simp
  have id: "?insta ''platform'' = Some (PStr ''Instagram'')" by simp
  have n: "''Instagram'' \<notin> set PLATFORMS" by (simp add: PLATFORMS_def)
  have 3: "handle_url ex_env_sends ex_unlisted_platform Map.empty 1 ex_instagram_url =
          \<lparr>state = ex_unlisted_platform, files = Map.empty, replies = [], engine_calls = [],
           outcome = Raised KeyError\<rparr>"
    using url_before_quality_defaults_to_720p [where st = ex_unlisted_platform and uid = 1
        and sess = ?insta and p = "''Instagram''" and env = ex_env_sends and fs = Map.empty
        and msg = ex_instagram_url, OF ia ib id] ic n
    by blast
  have sa: "ex_delivered_no_quality 1 = Some ?sent" by (simp add: ex_delivered_no_quality_eq)
  have sb: "?sent ''quality'' = None" by simp
  have sc: "truthy (?sent ''video_sent'')" by simp
  have sd: "?sent ''platform'' = Some (PStr ''YouTube'')" by simp
  have 4: "handle_url ex_env_sends ex_delivered_no_quality Map.empty 1 ex_url =
          \<lparr>state = ex_delivered_no_quality, files = Map.empty, replies = [AlreadyDownloaded],
           engine_calls = [], outcome = Returned\<rparr>"
    using url_before_quality_defaults_to_720p [where st = ex_delivered_no_quality and uid = 1
        and sess = ?sent and p = "''YouTube''" and env = ex_env_sends and fs = Map.empty
        and msg = ex_url, OF sa sb sd] sc
    by blast
  from 1 2 3 sa 4 show ?thesis by blast
qed

section \<open>The size ceiling\<close>

text \<open>
  C8: when the file the engine has written is larger than 2 GiB, the download removes it
  and replies that it is too large; nothing else is sent, and the result is the same
  whatever the upload of the gateway would do, so the upload is not attempted.
\<close>

theorem oversize_file_deleted_not_sent:
  assumes "extract_info env (ydl_options (replace_p q) (file_token env)) message fs = (fs1, Inr i)"
    and "fs1 (prepare_filename env (ydl_options (replace_p q) (file_token env)) i) = Some sz"
    and "sz > 2 * 1024 ^ 3"
  shows "files (download env st fs uid sess (PStr q) message)
           (prepare_filename env (ydl_options (replace_p q) (file_token env)) i) = None \<and>
         replies (download env st fs uid sess (PStr q) message) = [Downloading, FileTooLarge] \<and>
         download (env\<lparr>reply_video := upload\<rparr>) st fs uid sess (PStr q) message =
           download env st fs uid sess (PStr q) message"
proof -
  have big: "sz > size_limit" using assms(3) by (simp add: size_limit_def)
  let ?env = "env\<lparr>reply_video := upload\<rparr>"
  have e: "extract_info ?env (ydl_options (replace_p q) (file_token ?env)) message fs = (fs1, Inr i)"
    using assms(1) by simp
  have f: "fs1 (prepare_filename ?env (ydl_options (replace_p q) (file_token ?env)) i) = Some sz"
    using assms(2) by simp
  show ?thesis
    using download_oversize [OF assms(1,2) big, of st uid sess]
      download_oversize [OF e f big, of st uid sess]
    by simp
qed

theorem oversize_file_deleted_not_sent_witness:
  "files (download ex_env_oversize ex_quality_chosen Map.empty 1 Map.empty (PStr ''1080p'') ex_url)
     ''downloads/3f2a9c01de.mp4'' = None \<and>
   replies (download ex_env_oversize ex_quality_chosen Map.empty 1 Map.empty (PStr ''1080p'') ex_url) =
     [Downloading, FileTooLarge]"
proof -
  have e: "extract_info ex_env_oversize (ydl_options (replace_p ''1080p'') (file_token ex_env_oversize))
             ex_url Map.empty =
           ([''downloads/3f2a9c01de.mp4'' \<mapsto> 3221225472], Inr \<lparr>title = None\<rparr>)"
    by (simp add: ex_env_oversize_def)
  have f: "[''downloads/3f2a9c01de.mp4'' \<mapsto> 3221225472]
             (prepare_filename ex_env_oversize
               (ydl_options (replace_p ''1080p'') (file_token ex_env_oversize)) \<lparr>title = None\<rparr>) =
           Some (3221225472::nat)"
    by (simp add: ex_env_oversize_def)
  have g: "(3221225472::nat) > 2 * 1024 ^ 3" by simp
  have p: "prepare_filename ex_env_oversize
             (ydl_options (replace_p ''1080p'') (file_token ex_env_oversize)) \<lparr>title = None\<rparr> =
           ''downloads/3f2a9c01de.mp4''"
    by (simp add: ex_env_oversize_def)
  show ?thesis
    using oversize_file_deleted_not_sent [OF e f g, of ex_quality_chosen 1 Map.empty]
    by (simp add: p)
qed

section \<open>Payloads\<close>

lemma split_colon_first:
  "\<exists>rest. split_colon s = takeWhile (\<lambda>c. c \<noteq> CHR '':'') s # rest"
  by (induction s) auto

lemma second_split_colon:
  "second (x # split_colon s) = Inr (takeWhile (\<lambda>c. c \<noteq> CHR '':'') s)"
proof -
  obtain rest where "split_colon s = takeWhile (\<lambda>c. c \<noteq> CHR '':'') s # rest"
    using split_colon_first by blast
  then show ?thesis by simp
qed

lemma dispatch_platform_payload:
  "dispatch env st fs (CallbackQuery uid (''platform:'' @ p)) =
     answer
       (st(uid \<mapsto> [''platform'' \<mapsto> PStr (takeWhile (\<lambda>c. c \<noteq> CHR '':'') p),
                   ''video_sent'' \<mapsto> PBool False]))
       fs [PlatformSelected (takeWhile (\<lambda>c. c \<noteq> CHR '':'') p) QUALITIES]"
  by (simp add: dispatch_def re_match_def button_handler_def startswith_def
      second_split_colon)

lemma dispatch_quality_payload:
  "dispatch env st fs (CallbackQuery uid (''quality:'' @ q)) =
     (case st uid of
        Some sess \<Rightarrow>
          answer (st(uid \<mapsto> sess(''quality'' \<mapsto> PStr (takeWhile (\<lambda>c. c \<noteq> CHR '':'') q)))) fs
            [QualitySelected (takeWhile (\<lambda>c. c \<noteq> CHR '':'') q)]
      | None \<Rightarrow> answer st fs [SessionExpired])"
  by (simp add: dispatch_def re_match_def button_handler_def startswith_def
      second_split_colon)

section \<open>What a handler may change in the store\<close>

lemma menu_handler_state: "state (menu_handler st fs data) = st"
  by (simp add: menu_handler_def answer_def)

lemma button_handler_files: "files (button_handler st fs sender data) = fs"
  by (simp add: button_handler_def answer_def raise_def split: sum.splits option.splits)

lemma button_handler_state:
  "state (button_handler st fs sender data) = st \<or>
   (startswith data ''platform:'' \<and>
    (\<exists>p. state (button_handler st fs sender data) =
           st(sender \<mapsto> [''platform'' \<mapsto> PStr p, ''video_sent'' \<mapsto> PBool False]))) \<or>
   (\<not> startswith data ''platform:'' \<and>
    (\<exists>sess q. st sender = Some sess \<and>
       state (button_handler st fs sender data) = st(sender \<mapsto> sess(''quality'' \<mapsto> PStr q))))"
  by (auto simp: button_handler_def answer_def raise_def split: sum.splits option.splits)

section \<open>The flag of a delivered session\<close>





section \<open>A failing engine\<close>

text \<open>
  C3 at an engine that leaves a partly written file and raises: the \<open>except\<close> block
  replies, then reads \<open>file_path\<close>, which was never bound, and is left by
  UnboundLocalError. The file is still on storage when the handler is done.
\<close>

theorem engine_failure_leaves_partial_file:
  "files (handle_url ex_env_engine_fails ex_quality_chosen Map.empty 1 ex_url)
     ''downloads/3f2a9c01de.mp4.part'' = Some 1000 \<and>
   replies (handle_url ex_env_engine_fails ex_quality_chosen Map.empty 1 ex_url) =
     [Downloading, DownloadError ''network error''] \<and>
   outcome (handle_url ex_env_engine_fails ex_quality_chosen Map.empty 1 ex_url) =
     Raised UnboundLocalError"
  using ex_url_valid
  by (simp add: ex_quality_chosen_eq handle_url_def validate_def quality_of_def strip_ex_url
      download_def except_block_def Let_def ex_env_engine_fails_def)

text \<open>
  What the handler does whenever the engine raises: the reply with the text of the
  exception is sent, the store is as it was, and the handler is left by UnboundLocalError.
\<close>

lemma handle_url_engine_raises:
  assumes "st uid = Some sess"
    and "\<not> truthy (sess ''video_sent'')"
    and "sess ''platform'' = Some (PStr p)"
    and "quality_of sess = PStr q"
    and "is_valid_url p (strip msg) = Inr True"
    and "extract_info env (ydl_options (replace_p q) (file_token env)) (strip msg) fs
           = (fs1, Inl t)"
  shows "handle_url env st fs uid msg =
           \<lparr>state = st, files = fs1,
            replies = [Downloading, DownloadError t],
            engine_calls = [(ydl_options (replace_p q) (file_token env), strip msg)],
            outcome = Raised UnboundLocalError\<rparr>"
proof -
  have "handle_url env st fs uid msg = download env st fs uid sess (PStr q) (strip msg)"
    using handle_url_valid [where st = st and uid = uid and sess = sess and p = p
        and msg = msg and env = env and fs = fs] assms by simp
  with download_engine_raises [OF assms(6), of st uid sess] show ?thesis by simp
qed

text \<open>
  C7 at an engine that raises \<open>HTTP Error 403: Forbidden\<close>: the \<open>except\<close> clause
  takes the exception and the user gets the reply with its text, but the handler does not
  return: the next line of the \<open>except\<close> block reads \<open>file_path\<close>, which was never
  bound, and UnboundLocalError leaves the handler. The reset of the flag on the line after
  is not reached; the flag is false only because it had not been set, and so the same
  message, sent again, calls the engine again.
\<close>

theorem engine_exception_escapes_handler:
  "handle_url ex_env_engine_refuses ex_quality_chosen Map.empty 1 ex_url =
     \<lparr>state = ex_quality_chosen, files = Map.empty,
      replies = [Downloading, DownloadError ''HTTP Error 403: Forbidden''],
      engine_calls = [(ydl_options ''720'' ''3f2a9c01de'', ex_url)],
      outcome = Raised UnboundLocalError\<rparr> \<and>
   engine_calls (handle_url ex_env_sends ex_quality_chosen Map.empty 1 ex_url) =
     [(ydl_options ''720'' ''3f2a9c01de'', ex_url)]"
proof -
  let ?sess = "[''platform'' \<mapsto> PStr ''YouTube'', ''video_sent'' \<mapsto> PBool False,
                ''quality'' \<mapsto> PStr ''720p'']"
  have a: "ex_quality_chosen 1 = Some ?sess" by (simp add: ex_quality_chosen_eq)
  have b: "\<not> truthy (?sess ''video_sent'')" by simp
  have c: "?sess ''platform'' = Some (PStr ''YouTube'')" by simp
  have d: "quality_of ?sess = PStr ''720p''" by (simp add: quality_of_def)
  have e: "is_valid_url ''YouTube'' (strip ex_url) = Inr True"
    by (simp add: strip_ex_url ex_url_valid)
  have f: "extract_info ex_env_engine_refuses
             (ydl_options (replace_p ''720p'') (file_token ex_env_engine_refuses)) (strip ex_url)
             Map.empty =
           (Map.empty, Inl ''HTTP Error 403: Forbidden'')"
    by (simp add: ex_env_engine_refuses_def)
  have t: "file_token ex_env_engine_refuses = ''3f2a9c01de''"
    by (simp add: ex_env_engine_refuses_def)
  have r: "replace_p ''720p'' = ''720''" by (simp add: replace_p_def)
  from handle_url_engine_raises [where st = ex_quality_chosen and uid = 1 and sess = ?sess
      and p = "''YouTube''" and q = "''720p''" and msg = ex_url
      and env = ex_env_engine_refuses and fs = Map.empty, OF a b c d e f]
  have "handle_url ex_env_engine_refuses ex_quality_chosen Map.empty 1 ex_url =
     \<lparr>state = ex_quality_chosen, files = Map.empty,
      replies = [Downloading, DownloadError ''HTTP Error 403: Forbidden''],
      engine_calls = [(ydl_options ''720'' ''3f2a9c01de'', ex_url)],
      outcome = Raised UnboundLocalError\<rparr>"
    by (simp add: t r strip_ex_url)
  then show ?thesis by (simp add: ex_delivery)
qed

section \<open>Well-formed sessions\<close>

lemma wf_session_created: "wf_session [''platform'' \<mapsto> PStr p, ''video_sent'' \<mapsto> PBool b]"
  by (simp add: wf_session_def)

lemma wf_session_quality: "wf_session sess \<Longrightarrow> wf_session (sess(''quality'' \<mapsto> v))"
  by (simp add: wf_session_def)

lemma wf_session_flag: "wf_session sess \<Longrightarrow> wf_session (sess(''video_sent'' \<mapsto> PBool b))"
  by (simp add: wf_session_def)

lemma wf_store_update: "wf_store st \<Longrightarrow> wf_session sess \<Longrightarrow> wf_store (st(uid \<mapsto> sess))"
  by (simp add: wf_store_def)

lemma wf_store_lookup: "wf_store st \<Longrightarrow> st uid = Some sess \<Longrightarrow> wf_session sess"
  by (simp add: wf_store_def)

lemma wf_store_empty: "wf_store Map.empty"
  by (simp add: wf_store_def)

lemma button_handler_wf:
  assumes "wf_store st"
  shows "wf_store (state (button_handler st fs sender data))"
  using button_handler_state [of st fs sender data] assms
  by (auto intro!: wf_store_update wf_session_created wf_session_quality dest: wf_store_lookup)

lemma handle_url_wf:
  assumes "wf_store st"
  shows "wf_store (state (handle_url env st fs sender msg))"
  using handle_url_state [of env st fs sender msg] assms
  by (auto intro!: wf_store_update wf_session_flag dest: wf_store_lookup)

lemma dispatch_wf:
  assumes "wf_store st"
  shows "wf_store (state (dispatch env st fs u))"
  using assms
  by (cases u)
    (simp_all add: dispatch_def start_def menu_handler_def answer_def button_handler_wf
      handle_url_wf)

lemma run_wf: "wf_store st \<Longrightarrow> wf_store (fst (run us st fs))"
proof (induction us arbitrary: st fs)
  case Nil
  then show ?case by simp
next
  case (Cons eu us)
  obtain env u where "eu = (env, u)" by (cases eu)
  with Cons show ?case by (simp add: dispatch_wf)
qed

lemma session_created_by_platform_choice:
  assumes "st uid = None" and "state (dispatch env st fs u) uid \<noteq> None"
  shows "selects_platform uid u"
proof (cases u)
  case (StartCommand sender)
  with assms show ?thesis by (simp add: dispatch_def start_def answer_def)
next
  case (CallbackQuery sender data)
  show ?thesis
  proof (cases "re_match (Lit ''menu:'') data")
    case True
    with CallbackQuery assms show ?thesis
      by (simp add: dispatch_def menu_handler_state)
  next
    case False
    with CallbackQuery have d: "dispatch env st fs u = button_handler st fs sender data"
      by (simp add: dispatch_def)
    from button_handler_state [of st fs sender data] CallbackQuery assms show ?thesis
      unfolding d by (auto split: if_splits)
  qed
next
  case (TextMessage sender msg)
  then have d: "dispatch env st fs u = handle_url env st fs sender msg"
    by (simp add: dispatch_def)
  from handle_url_state [of env st fs sender msg] assms show ?thesis
    unfolding d by (auto split: if_splits)
qed

text \<open>
  C10: in every store that the updates produce from the empty store, each session has a
  \<open>platform\<close> that is a string and a \<open>video_sent\<close> that is a boolean, and every handler
  keeps it so. A session appears for a user only by the user's choice of a platform, which
  stores the text of the payload after the first colon and the flag false; the choice of
  a quality adds the key \<open>quality\<close> and leaves the rest of the session as it was.
\<close>

theorem sessions_well_formed:
  "wf_store (fst (run us Map.empty fs0)) \<and>
   (wf_store st \<longrightarrow> wf_store (state (dispatch env st fs u))) \<and>
   (st uid = None \<and> state (dispatch env st fs u) uid \<noteq> None \<longrightarrow> selects_platform uid u) \<and>
   state (dispatch env st fs (CallbackQuery uid (''platform:'' @ p))) uid =
     Some [''platform'' \<mapsto> PStr (takeWhile (\<lambda>c. c \<noteq> CHR '':'') p), ''video_sent'' \<mapsto> PBool False] \<and>
   (st uid = Some sess \<longrightarrow>
      state (dispatch env st fs (CallbackQuery uid (''quality:'' @ q))) uid =
        Some (sess(''quality'' \<mapsto> PStr (takeWhile (\<lambda>c. c \<noteq> CHR '':'') q))))"
  using run_wf [OF wf_store_empty, of us fs0] dispatch_wf [of st env fs u]
    session_created_by_platform_choice [of st uid env fs u]
    dispatch_platform_payload [of env st fs uid p]
    dispatch_quality_payload [of env st fs uid q]
  by (auto simp: answer_def)

theorem sessions_well_formed_witness:
  "fst (run ex_conversation Map.empty Map.empty) 1 =
     Some [''platform'' \<mapsto> PStr ''YouTube'', ''video_sent'' \<mapsto> PBool True,
           ''quality'' \<mapsto> PStr ''720p''] \<and>
   wf_store (fst (run ex_conversation Map.empty Map.empty)) \<and>
   wf_store ex_platform_chosen \<and>
   wf_store (state (dispatch ex_env_sends ex_platform_chosen Map.empty (TextMessage 1 ex_url))) \<and>
   selects_platform 1 (CallbackQuery 1 ''platform:YouTube'') \<and>
   state (dispatch ex_env_sends ex_platform_chosen Map.empty (CallbackQuery 1 ''quality:2k'')) 1 =
     Some [''platform'' \<mapsto> PStr ''YouTube'', ''video_sent'' \<mapsto> PBool False,
           ''quality'' \<mapsto> PStr ''2k'']"
proof -
  have conv: "fst (run ex_conversation Map.empty Map.empty) 1 =
     Some [''platform'' \<mapsto> PStr ''YouTube'', ''video_sent'' \<mapsto> PBool True,
           ''quality'' \<mapsto> PStr ''720p'']"
  proof -
    have "run ex_conversation Map.empty Map.empty =
            (state (handle_url ex_env_sends ex_quality_chosen Map.empty 1 ex_url),
             files (handle_url ex_env_sends ex_quality_chosen Map.empty 1 ex_url))"
      by (simp add: ex_conversation_def dispatch_def re_match_def start_def menu_handler_def
          answer_def ex_quality_chosen_def ex_platform_chosen_def ex_url_def
          button_handler_files)
    then show ?thesis by (simp add: ex_delivery)
  qed
  have w: "wf_store ex_platform_chosen"
    by (simp add: ex_platform_chosen_eq wf_store_def wf_session_def)
  have n: "(Map.empty :: user_state) 1 = None" by simp
  have s: "ex_platform_chosen 1 =
      Some [''platform'' \<mapsto> PStr ''YouTube'', ''video_sent'' \<mapsto> PBool False]"
    by (simp add: ex_platform_chosen_eq)
  have c: "state (dispatch ex_env_sends Map.empty Map.empty (CallbackQuery 1 ''platform:YouTube'')) 1
             \<noteq> None"
    by (simp add: dispatch_def re_match_def button_handler_def startswith_def answer_def)
  note a = sessions_well_formed [where us = ex_conversation and ?fs0.0 = Map.empty
      and st = ex_platform_chosen and env = ex_env_sends and fs = Map.empty
      and u = "TextMessage 1 ex_url" and uid = 1
      and sess = "[''platform'' \<mapsto> PStr ''YouTube'', ''video_sent'' \<mapsto> PBool False]"
      and q = "''2k''"]
  note b = sessions_well_formed [where st = Map.empty and uid = 1 and env = ex_env_sends
      and fs = Map.empty and u = "CallbackQuery 1 ''platform:YouTube''"]
  have 1: "wf_store (fst (run ex_conversation Map.empty Map.empty))" using a by blast
  have 2: "wf_store (state (dispatch ex_env_sends ex_platform_chosen Map.empty (TextMessage 1 ex_url)))"
    using a w by blast
  have 3: "selects_platform 1 (CallbackQuery 1 ''platform:YouTube'')" using b n c by blast
  have 4: "state (dispatch ex_env_sends ex_platform_chosen Map.empty (CallbackQuery 1 ''quality:2k'')) 1 =
     Some ([''platform'' \<mapsto> PStr ''YouTube'', ''video_sent'' \<mapsto> PBool False](''quality'' \<mapsto> PStr ''2k''))"
    using a s by simp
  from conv 1 w 2 3 4 show ?thesis by simp
qed

end
